theory Spec2Isabelle
  imports Complex_Main
begin

section \<open>Numbers and failures\<close>

text \<open>
  The program computes on Python floats and numpy arrays of floats. A float is modelled
  as a real number: arithmetic is exact, so rounding, overflow and signed zeros are
  outside the model. An operation that has no real value is a failure, and the model of
  a computation stops at the first one:
  \<^item> \<open>ZeroDivisionError\<close>: division by zero, or zero raised to a negative power. Python
    raises this exception on floats; on a numpy array the element becomes inf or nan
    with a warning.
  \<^item> \<open>NotReal\<close>: a negative base raised to a non-integral power (Python returns a complex
    number and goes on, numpy returns nan), or the logarithm of a number that is not
    positive (numpy returns nan or -inf).
  \<^item> \<open>KeyError\<close>: a corner that is not in the \<open>points\<close> dictionary.

  So \<open>Inl\<close> says that the computation has no real value, not that the program raises:
  \<open>NotReal\<close> is never an exception of the program, and \<open>ZeroDivisionError\<close> is one only
  where the operands are Python floats. In \<^verbatim>\<open>calculer_rendement\<close> the work is a numpy
  float, so the division by a heat input of 0 yields inf or nan and the dictionary is
  still returned; the model has no value there.
\<close>

datatype error = KeyError | ZeroDivisionError | NotReal

definition bindE :: "error + 'a \<Rightarrow> ('a \<Rightarrow> error + 'b) \<Rightarrow> error + 'b" where
  "bindE m f = (case m of Inl e \<Rightarrow> Inl e | Inr x \<Rightarrow> f x)"

text \<open>\<^verbatim>\<open>x / y\<close> on floats.\<close>

definition py_div :: "real \<Rightarrow> real \<Rightarrow> error + real" where
  "py_div x y = (if y = 0 then Inl ZeroDivisionError else Inr (x / y))"

text \<open>\<^verbatim>\<open>x ** y\<close> on floats.\<close>

definition py_pow :: "real \<Rightarrow> real \<Rightarrow> error + real" where
  "py_pow x y =
     (if 0 < x then Inr (x powr y)
      else if x = 0 then
        (if y < 0 then Inl ZeroDivisionError else if y = 0 then Inr 1 else Inr 0)
      else if y \<in> \<int> then Inr (x powi \<lfloor>y\<rfloor>)
      else Inl NotReal)"

text \<open>\<^verbatim>\<open>np.log(x)\<close>.\<close>

definition np_log :: "real \<Rightarrow> error + real" where
  "np_log x = (if 0 < x then Inr (ln x) else Inl NotReal)"

text \<open>
  \<^verbatim>\<open>np.linspace(start, stop, num)\<close>: \<open>num\<close> samples from \<open>start\<close> to \<open>stop\<close>, both
  included, with the step \<open>(stop - start) / (num - 1)\<close>; a single sample is \<open>start\<close>.
\<close>

definition linspace :: "real \<Rightarrow> real \<Rightarrow> nat \<Rightarrow> real list" where
  "linspace start stop num =
     map (\<lambda>i. start + real i * ((stop - start) / real (num - 1))) [0..<num]"

text \<open>
  An array of results holds a failure where the element has no real value; an
  integral over it exists when every sample does.
\<close>

fun collect :: "(error + 'a) list \<Rightarrow> error + 'a list" where
  "collect [] = Inr []"
| "collect (x # xs) = bindE x (\<lambda>y. bindE (collect xs) (\<lambda>ys. Inr (y # ys)))"

section \<open>transformations.py\<close>

definition CONST_R :: real where
  "CONST_R = 8314 / 1000"

text \<open>\<^verbatim>\<open>isotherme\<close>: \<open>P = nRT / V\<close>.\<close>

definition isotherme :: "real \<Rightarrow> real \<Rightarrow> real \<Rightarrow> error + real" where
  "isotherme V n T = py_div (n * CONST_R * T) V"

text \<open>\<^verbatim>\<open>adiabatique\<close>: \<open>P = P0 * (V0 / V) ** gamma\<close>.\<close>

definition adiabatique :: "real \<Rightarrow> real \<Rightarrow> real \<Rightarrow> real \<Rightarrow> error + real" where
  "adiabatique V P0 V0 gamma =
     bindE (py_div V0 V) (\<lambda>q. bindE (py_pow q gamma) (\<lambda>p. Inr (P0 * p)))"

text \<open>\<^verbatim>\<open>van_der_waals\<close>: \<open>P = nRT / (V - nb) - a n^2 / V^2\<close>.\<close>

definition van_der_waals :: "real \<Rightarrow> real \<Rightarrow> real \<Rightarrow> real \<Rightarrow> real \<Rightarrow> error + real" where
  "van_der_waals V n T a b =
     bindE (py_div (n * CONST_R * T) (V - n * b)) (\<lambda>term1.
     bindE (py_div (a * n\<^sup>2) (V\<^sup>2)) (\<lambda>term2.
     Inr (term1 - term2)))"

section \<open>gas\_models.py\<close>

text \<open>
  The classes \<^verbatim>\<open>GazParfait\<close> and \<^verbatim>\<open>GazVanDerWaals\<close> of the base class
  \<^verbatim>\<open>ModeleGaz\<close>, with the attributes \<open>n\<close>, \<open>gamma\<close> (and \<open>a\<close>, \<open>b\<close>). The attribute
  \<open>R\<close> is set to 8.314 by the base constructor.
\<close>

datatype ModeleGaz =
    GazParfait (gaz_n: real) (gaz_gamma: real)
  | GazVanDerWaals (gaz_n: real) (gaz_gamma: real) (gaz_a: real) (gaz_b: real)

definition gaz_R :: "ModeleGaz \<Rightarrow> real" where
  "gaz_R g = 8314 / 1000"

text \<open>\<^verbatim>\<open>getattr(self, 'b', 0)\<close>: an ideal gas has no attribute \<open>b\<close>.\<close>

fun getattr_b :: "ModeleGaz \<Rightarrow> real" where
  "getattr_b (GazParfait n gamma) = 0"
| "getattr_b (GazVanDerWaals n gamma a b) = b"

fun pression :: "ModeleGaz \<Rightarrow> real \<Rightarrow> real \<Rightarrow> error + real" where
  "pression (GazParfait n gamma) V T = isotherme V n T"
| "pression (GazVanDerWaals n gamma a b) V T = van_der_waals V n T a b"

fun temperature :: "ModeleGaz \<Rightarrow> real \<Rightarrow> real \<Rightarrow> error + real" where
  "temperature (GazParfait n gamma) P V =
     py_div (P * V) (n * gaz_R (GazParfait n gamma))"
| "temperature (GazVanDerWaals n gamma a b) P V =
     bindE (py_div (a * n\<^sup>2) (V\<^sup>2)) (\<lambda>q.
       let term1 = P + q;
           term2 = V - n * b
       in py_div (term1 * term2) (n * gaz_R (GazVanDerWaals n gamma a b)))"

text \<open>
  \<^verbatim>\<open>pression_adiabatique\<close>. The Van der Waals override tests \<open>V \<le> n b\<close> and then
  does nothing (\<^verbatim>\<open>pass\<close>), so the test leaves no trace in the model.
\<close>

fun pression_adiabatique :: "ModeleGaz \<Rightarrow> real \<Rightarrow> real \<Rightarrow> real \<Rightarrow> error + real" where
  "pression_adiabatique (GazParfait n gamma) V P0 V0 = adiabatique V P0 V0 gamma"
| "pression_adiabatique (GazVanDerWaals n gamma a b) V P0 V0 =
     bindE (temperature (GazVanDerWaals n gamma a b) P0 V0) (\<lambda>T0.
     bindE (py_div (V0 - n * b) (V - n * b)) (\<lambda>q.
     bindE (py_pow q (gamma - 1)) (\<lambda>pw.
       let T_new = T0 * pw
       in pression (GazVanDerWaals n gamma a b) V T_new)))"

text \<open>\<^verbatim>\<open>variation_entropie\<close>: \<open>S(T, V) - S(T_ref, V_ref)\<close>.\<close>

definition variation_entropie ::
  "ModeleGaz \<Rightarrow> real \<Rightarrow> real \<Rightarrow> real \<Rightarrow> real \<Rightarrow> error + real" where
  "variation_entropie g T V T_ref V_ref =
     bindE (py_div (gaz_n g * gaz_R g) (gaz_gamma g - 1)) (\<lambda>Cv.
       let b = getattr_b g * gaz_n g
       in bindE (py_div T T_ref) (\<lambda>qT.
          bindE (np_log qT) (\<lambda>lT.
            let term_T = Cv * lT;
                V_eff = max (1 / 10 ^ 10) (V - b);
                V_ref_eff = max (1 / 10 ^ 10) (V_ref - b)
            in bindE (py_div V_eff V_ref_eff) (\<lambda>qV.
               bindE (np_log qV) (\<lambda>lV.
                 let term_V = gaz_n g * gaz_R g * lV
                 in Inr (term_T + term_V))))))"

section \<open>cycles.py\<close>

text \<open>
  The class \<^verbatim>\<open>CycleOtto\<close>; \<^verbatim>\<open>CycleDiesel\<close> is a subclass with the same attributes that
  overrides \<^verbatim>\<open>calculer_points_cycle\<close> and \<^verbatim>\<open>calculer_rendement\<close>. The dictionary
  \<open>points\<close> maps a corner label to the tuple \<open>(V, P, T)\<close>.
\<close>

record CycleOtto =
  gaz :: ModeleGaz
  V_min :: real
  V_max :: real
  V_A :: real
  T_A :: real
  P_A :: real
  T_C :: real
  points :: "string \<rightharpoonup> real \<times> real \<times> real"
  tau :: real

text \<open>\<^verbatim>\<open>__init__\<close>: stores the arguments and the compression ratio; it checks nothing.\<close>

definition CycleOtto_init ::
  "ModeleGaz \<Rightarrow> real \<Rightarrow> real \<Rightarrow> real \<Rightarrow> real \<Rightarrow> real \<Rightarrow> error + CycleOtto" where
  "CycleOtto_init modele_gaz v_min v_max t_A p_A t_C_max =
     bindE (py_div v_max v_min) (\<lambda>q.
       Inr \<lparr>gaz = modele_gaz, V_min = v_min, V_max = v_max, V_A = v_max,
            T_A = t_A, P_A = p_A, T_C = t_C_max, points = Map.empty, tau = q\<rparr>)"

text \<open>\<^verbatim>\<open>self.points[k]\<close>.\<close>

definition lookup :: "(string \<rightharpoonup> 'v) \<Rightarrow> string \<Rightarrow> error + 'v" where
  "lookup m k = (case m k of None \<Rightarrow> Inl KeyError | Some v \<Rightarrow> Inr v)"

text \<open>\<^verbatim>\<open>CycleOtto.calculer_points_cycle\<close>: the corners A, B, C, D.\<close>

definition calculer_points_cycle :: "CycleOtto \<Rightarrow> error + CycleOtto" where
  "calculer_points_cycle c =
     (let V_A = V_max c;
          P_A = P_A c;
          T_A = T_A c;
          V_B = V_min c
      in bindE (pression_adiabatique (gaz c) V_B P_A V_A) (\<lambda>P_B.
         bindE (temperature (gaz c) P_B V_B) (\<lambda>T_B.
           let V_C = V_B;
               T_C = T_C c
           in bindE (pression (gaz c) V_C T_C) (\<lambda>P_C.
                let V_D = V_A
                in bindE (pression_adiabatique (gaz c) V_D P_C V_C) (\<lambda>P_D.
                   bindE (temperature (gaz c) P_D V_D) (\<lambda>T_D.
                     Inr (c\<lparr>points :=
                       [''A'' \<mapsto> (V_A, P_A, T_A),
                        ''B'' \<mapsto> (V_B, P_B, T_B),
                        ''C'' \<mapsto> (V_C, P_C, T_C),
                        ''D'' \<mapsto> (V_D, P_D, T_D)]\<rparr>)))))))"

text \<open>
  \<^verbatim>\<open>obtenir_courbe_adiabatique\<close>: the volumes sampled between two corners and the
  adiabatic pressure at each of them, anchored at the first corner.
\<close>

definition obtenir_courbe_adiabatique ::
  "CycleOtto \<Rightarrow> string \<Rightarrow> string \<Rightarrow> nat \<Rightarrow> error + (real list \<times> (error + real) list)" where
  "obtenir_courbe_adiabatique c point_depart point_fin n_points =
     bindE (lookup (points c) point_depart) (\<lambda>(V_start, P_start, T_start).
     bindE (lookup (points c) point_fin) (\<lambda>(V_end, P_end, T_end).
       let V_values = linspace V_start V_end n_points;
           P_values = map (\<lambda>V. pression_adiabatique (gaz c) V P_start V_start) V_values
       in Inr (V_values, P_values)))"

text \<open>
  The dictionary returned by \<^verbatim>\<open>calculer_rendement\<close>. The Diesel cycle writes
  \<^verbatim>\<open>float('nan')\<close> for the theoretical efficiency.
\<close>

datatype pyfloat = Num real | NaN

record rendement =
  W_total :: real
  Q_in :: real
  eta_numerique :: real
  eta_theorique :: pyfloat




text \<open>\<^verbatim>\<open>CycleDiesel.calculer_rendement\<close>.\<close>

definition Diesel_calculer_rendement ::
  "(real list \<Rightarrow> real list \<Rightarrow> real) \<Rightarrow> CycleOtto \<Rightarrow> error + rendement" where
  "Diesel_calculer_rendement simpson c =
     bindE (obtenir_courbe_adiabatique c ''A'' ''B'' 100) (\<lambda>(V_ab, P_ab).
     bindE (collect P_ab) (\<lambda>P_ab.
       let W_ab = - simpson P_ab V_ab
       in bindE (lookup (points c) ''B'') (\<lambda>(V_B, P_B, T_B).
          bindE (lookup (points c) ''C'') (\<lambda>(V_C, P_C, T_C).
            let W_bc = - P_B * (V_C - V_B)
            in bindE (obtenir_courbe_adiabatique c ''C'' ''D'' 100) (\<lambda>(V_cd, P_cd).
               bindE (collect P_cd) (\<lambda>P_cd.
                 let W_cd = - simpson P_cd V_cd;
                     W_total = W_ab + W_bc + W_cd
                 in bindE (py_div (gaz_gamma (gaz c) * gaz_R (gaz c))
                                  (gaz_gamma (gaz c) - 1)) (\<lambda>Cp.
                      let Q_in = gaz_n (gaz c) * Cp * (T_C - T_B)
                      in bindE (py_div \<bar>W_total\<bar> Q_in) (\<lambda>eta.
                           Inr \<lparr>W_total = W_total, Q_in = Q_in,
                                eta_numerique = eta,
                                eta_theorique = NaN\<rparr>))))))))"

section \<open>The same operations on IEEE doubles\<close>

text \<open>
  The definitions above compute with exact reals. The program computes with IEEE 754
  binary64 numbers: every arithmetic operation returns the exact result rounded to the
  nearest double, ties to even. The definitions of this section follow the same source
  lines with that rounding written out, so that what the code returns at a given input
  can be compared with what exact arithmetic gives.

  \<open>rne\<close> rounds a real to the nearest integer, ties to even. \<open>fl\<close> rounds a real to
  the nearest number with a 53-bit significand. Its exponent range is unbounded:
  overflow, underflow and subnormal numbers are outside the model, and \<open>fl\<close> is only
  evaluated at concrete inputs in the normal range.
\<close>

definition rne :: "real \<Rightarrow> int" where
  "rne x =
     (let f = \<lfloor>x\<rfloor>
      in if x - of_int f < 1 / 2 then f
         else if 1 / 2 < x - of_int f then f + 1
         else if even f then f else f + 1)"

definition fl :: "real \<Rightarrow> real" where
  "fl x =
     (if x = 0 then 0
      else let e = \<lfloor>log 2 \<bar>x\<bar>\<rfloor> - 52
           in of_int (rne (x / 2 powi e)) * 2 powi e)"

text \<open>
  \<^verbatim>\<open>x / y\<close> and \<^verbatim>\<open>x ** y\<close> on doubles. The power of the C library is taken as correctly
  rounded; it is only evaluated where the power is exact (\<open>1 ** y\<close>, \<open>4 ** 0.5\<close>,
  \<open>4 ** 1.5\<close>).
\<close>

definition f64_div :: "real \<Rightarrow> real \<Rightarrow> error + real" where
  "f64_div x y = (if y = 0 then Inl ZeroDivisionError else Inr (fl (x / y)))"

definition f64_pow :: "real \<Rightarrow> real \<Rightarrow> error + real" where
  "f64_pow x y =
     (if 0 < x then Inr (fl (x powr y))
      else if x = 0 then
        (if y < 0 then Inl ZeroDivisionError else if y = 0 then Inr 1 else Inr 0)
      else if y \<in> \<int> then Inr (fl (x powi \<lfloor>y\<rfloor>))
      else Inl NotReal)"

text \<open>The literal \<^verbatim>\<open>8.314\<close> is the double nearest to 8.314.\<close>

definition CONST_R_f64 :: real where
  "CONST_R_f64 = fl (8314 / 1000)"

text \<open>The functions of \<^verbatim>\<open>transformations.py\<close>, operation by operation.\<close>

definition isotherme_f64 :: "real \<Rightarrow> real \<Rightarrow> real \<Rightarrow> error + real" where
  "isotherme_f64 V n T = f64_div (fl (fl (n * CONST_R_f64) * T)) V"

definition adiabatique_f64 :: "real \<Rightarrow> real \<Rightarrow> real \<Rightarrow> real \<Rightarrow> error + real" where
  "adiabatique_f64 V P0 V0 gamma =
     bindE (f64_div V0 V) (\<lambda>q. bindE (f64_pow q gamma) (\<lambda>p. Inr (fl (P0 * p))))"

definition van_der_waals_f64 :: "real \<Rightarrow> real \<Rightarrow> real \<Rightarrow> real \<Rightarrow> real \<Rightarrow> error + real" where
  "van_der_waals_f64 V n T a b =
     bindE (f64_div (fl (fl (n * CONST_R_f64) * T)) (fl (V - fl (n * b)))) (\<lambda>term1.
     bindE (f64_div (fl (a * fl (n\<^sup>2))) (fl (V\<^sup>2))) (\<lambda>term2.
     Inr (fl (term1 - term2))))"

text \<open>
  The methods of \<^verbatim>\<open>gas_models.py\<close>. The attribute \<open>R\<close> holds the same double as
  \<open>CONST_R\<close>; \<^verbatim>\<open>n**2\<close> and \<^verbatim>\<open>V**2\<close> are the rounded squares.
\<close>

fun pression_f64 :: "ModeleGaz \<Rightarrow> real \<Rightarrow> real \<Rightarrow> error + real" where
  "pression_f64 (GazParfait n gamma) V T = isotherme_f64 V n T"
| "pression_f64 (GazVanDerWaals n gamma a b) V T = van_der_waals_f64 V n T a b"

fun temperature_f64 :: "ModeleGaz \<Rightarrow> real \<Rightarrow> real \<Rightarrow> error + real" where
  "temperature_f64 (GazParfait n gamma) P V =
     f64_div (fl (P * V)) (fl (n * CONST_R_f64))"
| "temperature_f64 (GazVanDerWaals n gamma a b) P V =
     bindE (f64_div (fl (a * fl (n\<^sup>2))) (fl (V\<^sup>2))) (\<lambda>q.
       let term1 = fl (P + q);
           term2 = fl (V - fl (n * b))
       in f64_div (fl (term1 * term2)) (fl (n * CONST_R_f64)))"

fun pression_adiabatique_f64 :: "ModeleGaz \<Rightarrow> real \<Rightarrow> real \<Rightarrow> real \<Rightarrow> error + real" where
  "pression_adiabatique_f64 (GazParfait n gamma) V P0 V0 = adiabatique_f64 V P0 V0 gamma"
| "pression_adiabatique_f64 (GazVanDerWaals n gamma a b) V P0 V0 =
     bindE (temperature_f64 (GazVanDerWaals n gamma a b) P0 V0) (\<lambda>T0.
     bindE (f64_div (fl (V0 - fl (n * b))) (fl (V - fl (n * b)))) (\<lambda>q.
     bindE (f64_pow q (fl (gamma - 1))) (\<lambda>pw.
       let T_new = fl (T0 * pw)
       in pression_f64 (GazVanDerWaals n gamma a b) V T_new)))"


section \<open>The entropy difference as the specification words it\<close>

text \<open>
  The specification gives \<open>\<Delta>S = n Cv ln(T / T_ref) + n R ln((V - b_eff) / (V_ref - b_eff))\<close>
  with \<open>Cv = n R / (gamma - 1)\<close> and \<open>b_eff = n b\<close>, both volume differences clamped to a
  small positive floor. This definition follows those words, for comparison with
  \<open>variation_entropie\<close>.
\<close>

definition variation_entropie_spec :: "ModeleGaz \<Rightarrow> real \<Rightarrow> real \<Rightarrow> real \<Rightarrow> real \<Rightarrow> real" where
  "variation_entropie_spec g T V T_ref V_ref =
     (let n = gaz_n g;
          Cv = n * gaz_R g / (gaz_gamma g - 1);
          b_eff = n * getattr_b g
      in n * Cv * ln (T / T_ref)
         + n * gaz_R g * ln (max (1 / 10 ^ 10) (V - b_eff) / max (1 / 10 ^ 10) (V_ref - b_eff)))"

section \<open>Properties of the gas models\<close>

lemma bindE_Inr [simp]: "bindE (Inr x) f = f x"
  by (simp add: bindE_def)

lemma bindE_Inl [simp]: "bindE (Inl e) f = Inl e"
  by (simp add: bindE_def)

lemma py_div_nonzero [simp]: "y \<noteq> 0 \<Longrightarrow> py_div x y = Inr (x / y)"
  by (simp add: py_div_def)

lemma py_div_zero [simp]: "py_div x 0 = Inl ZeroDivisionError"
  by (simp add: py_div_def)

lemma py_pow_pos [simp]: "0 < x \<Longrightarrow> py_pow x y = Inr (x powr y)"
  by (simp add: py_pow_def)

lemma CONST_R_pos [simp]: "0 < CONST_R"
  by (simp add: CONST_R_def)

lemma CONST_R_nonzero [simp]: "CONST_R \<noteq> 0"
  by (simp add: CONST_R_def)

lemma gaz_R_CONST_R [simp]: "gaz_R g = CONST_R"
  by (simp add: gaz_R_def CONST_R_def)

lemma van_der_waals_value:
  "V \<noteq> n * b \<Longrightarrow> V \<noteq> 0 \<Longrightarrow>
   van_der_waals V n T a b = Inr (n * CONST_R * T / (V - n * b) - a * n\<^sup>2 / V\<^sup>2)"
  by (simp add: van_der_waals_def)

lemma temperature_vdw_value:
  "V \<noteq> 0 \<Longrightarrow> n \<noteq> 0 \<Longrightarrow>
   temperature (GazVanDerWaals n gamma a b) P V =
     Inr ((P + a * n\<^sup>2 / V\<^sup>2) * (V - n * b) / (n * CONST_R))"
  by (simp add: Let_def)



lemma pression_vdw_value:
  "V \<noteq> n * b \<Longrightarrow> V \<noteq> 0 \<Longrightarrow>
   pression (GazVanDerWaals n gamma a b) V T = Inr (n * CONST_R * T / (V - n * b) - a * n\<^sup>2 / V\<^sup>2)"
  by (simp add: van_der_waals_value)

lemma adiabatique_value:
  "0 < V \<Longrightarrow> 0 < V0 \<Longrightarrow> adiabatique V P0 V0 gamma = Inr (P0 * (V0 / V) powr gamma)"
  by (simp add: adiabatique_def)

lemma pression_adiabatique_vdw_step:
  assumes "temperature (GazVanDerWaals n gamma a b) P0 V0 = Inr T0"
    and "0 < (V0 - n * b) / (V - n * b)" and "V \<noteq> n * b"
  shows "pression_adiabatique (GazVanDerWaals n gamma a b) V P0 V0 =
     pression (GazVanDerWaals n gamma a b) V (T0 * ((V0 - n * b) / (V - n * b)) powr (gamma - 1))"
  using assms by (simp add: Let_def del: temperature.simps pression.simps)




section \<open>The covolume\<close>

text \<open>
  The Van der Waals pressure below the covolume: with \<open>n = 1\<close> and \<open>b = 4e-5\<close>, at
  \<open>V = 2e-5 \<le> n b\<close> the pressure is returned as the negative number \<open>-474710000\<close>,
  and the adiabatic pressure from the reference \<open>(101300, 2e-5)\<close> is returned as well.
  No failure is reported.
\<close>

theorem pression_covolume_counterexample:
  "(2 / 100000 :: real) \<le> 1 * (4 / 100000)
   \<and> pression (GazVanDerWaals 1 (7 / 5) (14 / 100) (4 / 100000)) (2 / 100000) 300
       = Inr (- 474710000)
   \<and> pression_adiabatique (GazVanDerWaals 1 (7 / 5) (14 / 100) (4 / 100000))
       (2 / 100000) 101300 (2 / 100000) = Inr 101300"
  by (simp add: van_der_waals_def CONST_R_def Let_def power2_eq_square)

lemma pression_adiabatique_at_covolume:
  "pression_adiabatique (GazVanDerWaals n gamma a b) (n * b) P0 V0 = Inl ZeroDivisionError"
proof (cases "temperature (GazVanDerWaals n gamma a b) P0 V0")
  case (Inl e)
  then have "e = ZeroDivisionError"
    by (auto simp: py_div_def bindE_def Let_def split: if_splits sum.splits)
  with Inl show ?thesis
    by (simp del: temperature.simps)
next
  case (Inr T0)
  then show ?thesis
    by (simp del: temperature.simps)
qed

lemma pression_vdw_cases:
  "pression (GazVanDerWaals n gamma a b) V T =
     (if V = n * b \<or> V = 0 then Inl ZeroDivisionError
      else Inr (n * CONST_R * T / (V - n * b) - a * n\<^sup>2 / V\<^sup>2))"
  by (auto simp: van_der_waals_def py_div_def)

lemma pression_adiabatique_below_covolume:
  assumes "n \<noteq> 0" and "V \<noteq> 0" and "V0 \<noteq> 0" and "V < n * b" and "V0 < n * b"
  shows "pression_adiabatique (GazVanDerWaals n gamma a b) V P0 V0 =
     Inr (n * CONST_R
            * ((P0 + a * n\<^sup>2 / V0\<^sup>2) * (V0 - n * b) / (n * CONST_R)
               * ((V0 - n * b) / (V - n * b)) powr (gamma - 1))
            / (V - n * b)
          - a * n\<^sup>2 / V\<^sup>2)"
proof -
  have T0: "temperature (GazVanDerWaals n gamma a b) P0 V0 =
      Inr ((P0 + a * n\<^sup>2 / V0\<^sup>2) * (V0 - n * b) / (n * CONST_R))"
    using assms by (simp add: temperature_vdw_value del: temperature.simps)
  have q: "0 < (V0 - n * b) / (V - n * b)"
    using assms by (simp add: divide_neg_neg)
  have ne: "V \<noteq> n * b"
    using assms by simp
  show ?thesis
    unfolding pression_adiabatique_vdw_step [OF T0 q ne]
    using ne assms(2) by (simp add: van_der_waals_value)
qed

text \<open>
  C1, as the code has it. The Van der Waals pressure and adiabatic pressure make no
  covolume check and have no failure of their own. The pressure fails exactly when
  \<open>V = n b\<close> or \<open>V = 0\<close>, as a division by zero, and everywhere else it is the value
  \<open>n R T / (V - n b) - a n\<^sup>2 / V\<^sup>2\<close>, which is negative below the covolume (\<open>V < n b\<close>, with
  \<open>n > 0\<close>, \<open>T > 0\<close>, \<open>a \<ge> 0\<close>). The adiabatic pressure fails at \<open>V = n b\<close>, as a division by
  zero; when \<open>V\<close> and \<open>V0\<close> are both below the covolume (and \<open>n\<close>, \<open>V\<close>, \<open>V0\<close> are not 0) it
  returns the pressure at \<open>V\<close> for the temperature
  \<open>T0 ((V0 - n b) / (V - n b)) powr (gamma - 1)\<close>.
\<close>

theorem vdw_no_covolume_check:
  "pression (GazVanDerWaals n gamma a b) V T =
     (if V = n * b \<or> V = 0 then Inl ZeroDivisionError
      else Inr (n * CONST_R * T / (V - n * b) - a * n\<^sup>2 / V\<^sup>2))
   \<and> (V < n * b \<and> V \<noteq> 0 \<and> 0 < n \<and> 0 < T \<and> 0 \<le> a \<longrightarrow>
        n * CONST_R * T / (V - n * b) - a * n\<^sup>2 / V\<^sup>2 < 0)
   \<and> pression_adiabatique (GazVanDerWaals n gamma a b) (n * b) P0 V0 = Inl ZeroDivisionError
   \<and> (n \<noteq> 0 \<and> V \<noteq> 0 \<and> V0 \<noteq> 0 \<and> V < n * b \<and> V0 < n * b \<longrightarrow>
        pression_adiabatique (GazVanDerWaals n gamma a b) V P0 V0 =
          Inr (n * CONST_R
                 * ((P0 + a * n\<^sup>2 / V0\<^sup>2) * (V0 - n * b) / (n * CONST_R)
                    * ((V0 - n * b) / (V - n * b)) powr (gamma - 1))
                 / (V - n * b)
               - a * n\<^sup>2 / V\<^sup>2))"
proof -
  have neg: "n * CONST_R * T / (V - n * b) - a * n\<^sup>2 / V\<^sup>2 < 0"
    if "V < n * b" "V \<noteq> 0" "0 < n" "0 < T" "0 \<le> a"
  proof -
    have "n * CONST_R * T / (V - n * b) < 0"
      using that by (simp add: divide_neg_pos divide_pos_neg mult_pos_pos field_simps)
    moreover have "0 \<le> a * n\<^sup>2 / V\<^sup>2"
      using that by simp
    ultimately show ?thesis by linarith
  qed
  show ?thesis
    using neg pression_vdw_cases [of n gamma a b V T]
      pression_adiabatique_at_covolume [of n gamma a b P0 V0]
      pression_adiabatique_below_covolume [of n V V0 b gamma a P0]
    by blast
qed

theorem vdw_no_covolume_check_witness:
  "pression (GazVanDerWaals 1 (7 / 5) (14 / 100) (4 / 100000)) (2 / 100000) 300
      = Inr (1 * CONST_R * 300 / (2 / 100000 - 1 * (4 / 100000))
             - 14 / 100 * 1\<^sup>2 / (2 / 100000)\<^sup>2)
   \<and> 1 * CONST_R * 300 / (2 / 100000 - 1 * (4 / 100000))
       - 14 / 100 * 1\<^sup>2 / (2 / 100000)\<^sup>2 < 0
   \<and> pression_adiabatique (GazVanDerWaals 1 (7 / 5) (14 / 100) (4 / 100000)) (1 * (4 / 100000))
      101300 (1 / 1000) = Inl ZeroDivisionError
   \<and> pression_adiabatique (GazVanDerWaals 1 (7 / 5) (14 / 100) (4 / 100000)) (2 / 100000)
      101300 (1 / 100000) =
        Inr (1 * CONST_R
               * ((101300 + 14 / 100 * 1\<^sup>2 / (1 / 100000)\<^sup>2) * (1 / 100000 - 1 * (4 / 100000))
                  / (1 * CONST_R)
                  * ((1 / 100000 - 1 * (4 / 100000)) / (2 / 100000 - 1 * (4 / 100000)))
                    powr (7 / 5 - 1))
               / (2 / 100000 - 1 * (4 / 100000))
             - 14 / 100 * 1\<^sup>2 / (2 / 100000)\<^sup>2)"
proof -
  have "(2 / 100000 :: real) \<noteq> 1 * (4 / 100000)" "(2 / 100000 :: real) \<noteq> 0"
    "(2 / 100000 :: real) < 1 * (4 / 100000)" "(1 / 100000 :: real) < 1 * (4 / 100000)"
    by simp_all
  then show ?thesis
    using vdw_no_covolume_check
      [of 1 "7 / 5" "14 / 100" "4 / 100000" "2 / 100000" 300 101300 "1 / 1000"]
      vdw_no_covolume_check
      [of 1 "7 / 5" "14 / 100" "4 / 100000" "2 / 100000" 300 101300 "1 / 100000"]
    by (simp del: pression.simps pression_adiabatique.simps)
qed

section \<open>The entropy difference\<close>

text \<open>
  For two moles of ideal gas, \<open>T / T_ref = 2\<close> and equal volumes, the code returns
  \<open>n R / (gamma - 1) * ln 2\<close>; the formula of the specification has one more factor \<open>n\<close>.
\<close>

theorem variation_entropie_counterexample:
  "variation_entropie (GazParfait 2 (7 / 5)) 2 1 1 1
     \<noteq> Inr (variation_entropie_spec (GazParfait 2 (7 / 5)) 2 1 1 1)"
proof -
  have "ln (2::real) \<noteq> 0"
    by simp
  then show ?thesis
    by (simp add: variation_entropie_def variation_entropie_spec_def np_log_def Let_def CONST_R_def)
qed

text \<open>
  C7, as the code has it. For every gas model with \<open>gamma \<noteq> 1\<close> and all positive \<open>T\<close>,
  \<open>T_ref\<close>, the entropy difference is computed and is
  \<open>Cv ln(T / T_ref) + n R ln((V - b_eff) / (V_ref - b_eff))\<close> with the total heat capacity
  \<open>Cv = n R / (gamma - 1)\<close> and \<open>b_eff = n b\<close> (0 for the ideal gas), where \<open>V - b_eff\<close> and
  \<open>V_ref - b_eff\<close> are raised to the floor \<open>1e-10\<close> before the logarithm, so the result is
  a real number also at or below the covolume.
\<close>

theorem variation_entropie_value:
  assumes "0 < T" and "0 < T_ref" and "gaz_gamma g \<noteq> 1"
  shows "variation_entropie g T V T_ref V_ref =
     Inr (gaz_n g * gaz_R g / (gaz_gamma g - 1) * ln (T / T_ref)
          + gaz_n g * gaz_R g
            * ln (max (1 / 10 ^ 10) (V - gaz_n g * getattr_b g)
                  / max (1 / 10 ^ 10) (V_ref - gaz_n g * getattr_b g)))"
proof -
  have "0 < T / T_ref"
    using assms by simp
  moreover have "0 < max (1 / 10 ^ 10) (V - getattr_b g * gaz_n g)"
    and "0 < max (1 / 10 ^ 10) (V_ref - getattr_b g * gaz_n g)"
    by (simp_all add: less_max_iff_disj)
  moreover from this have "0 < max (1 / 10 ^ 10) (V - getattr_b g * gaz_n g)
      / max (1 / 10 ^ 10) (V_ref - getattr_b g * gaz_n g)"
    by (rule divide_pos_pos)
  ultimately show ?thesis
    using assms
    by (simp add: variation_entropie_def np_log_def Let_def mult.commute
        del: max_less_iff_conj less_max_iff_disj)
qed

theorem variation_entropie_value_witness:
  "variation_entropie (GazVanDerWaals 2 (7 / 5) (14 / 100) (4 / 100000)) 600 (1 / 100000) 300 (1 / 1000)
     = Inr (2 * CONST_R / (7 / 5 - 1) * ln (600 / 300)
            + 2 * CONST_R * ln ((1 / 10 ^ 10) / (1 / 1000 - 2 * (4 / 100000))))"
  using variation_entropie_value
    [of 600 300 "GazVanDerWaals 2 (7 / 5) (14 / 100) (4 / 100000)" "1 / 100000" "1 / 1000"]
  by simp

section \<open>The adiabatic pressure at its reference state\<close>




lemma length_linspace [simp]: "length (linspace a b k) = k"
  by (simp add: linspace_def)

lemma obtenir_courbe_adiabatique_value:
  assumes "points c s = Some (V0, P0, T0)" and "points c e = Some (V1, P1, T1)"
  shows "obtenir_courbe_adiabatique c s e k =
      Inr (linspace V0 V1 k, map (\<lambda>V. pression_adiabatique (gaz c) V P0 V0) (linspace V0 V1 k))"
  using assms by (simp add: obtenir_courbe_adiabatique_def lookup_def Let_def)



section \<open>The corners of the Otto cycle\<close>

lemma pression_defined:
  assumes "0 < V" and "gaz_n g * getattr_b g < V"
  shows "\<exists>p. pression g V T = Inr p"
proof (cases g)
  case (GazParfait n gamma)
  with assms show ?thesis by (simp add: isotherme_def)
next
  case (GazVanDerWaals n gamma a b)
  with assms show ?thesis by (simp add: van_der_waals_value)
qed

lemma temperature_defined:
  assumes "0 < gaz_n g" and "0 < V"
  shows "\<exists>t. temperature g P V = Inr t"
proof (cases g)
  case (GazParfait n gamma)
  with assms show ?thesis by simp
next
  case (GazVanDerWaals n gamma a b)
  with assms show ?thesis by (simp add: temperature_vdw_value del: temperature.simps)
qed

lemma pression_adiabatique_defined:
  assumes "0 < gaz_n g" and "0 < V" and "0 < V0"
    and "gaz_n g * getattr_b g < V" and "gaz_n g * getattr_b g < V0"
  shows "\<exists>p. pression_adiabatique g V P0 V0 = Inr p"
proof (cases g)
  case (GazParfait n gamma)
  with assms show ?thesis by (simp add: adiabatique_value)
next
  case (GazVanDerWaals n gamma a b)
  with assms have v: "0 < n" "n * b < V" "n * b < V0" by simp_all
  obtain T0 where T0: "temperature (GazVanDerWaals n gamma a b) P0 V0 = Inr T0"
    using temperature_defined [of "GazVanDerWaals n gamma a b" V0 P0] v assms by auto
  have "0 < (V0 - n * b) / (V - n * b)"
    using v by simp
  then have "pression_adiabatique (GazVanDerWaals n gamma a b) V P0 V0 =
      pression (GazVanDerWaals n gamma a b) V (T0 * ((V0 - n * b) / (V - n * b)) powr (gamma - 1))"
    using v by (intro pression_adiabatique_vdw_step [OF T0]) simp_all
  moreover have "\<exists>p. pression (GazVanDerWaals n gamma a b) V
      (T0 * ((V0 - n * b) / (V - n * b)) powr (gamma - 1)) = Inr p"
    using assms v by (intro pression_defined) simp_all
  ultimately show ?thesis
    using GazVanDerWaals by auto
qed

lemma calculer_points_cycle_value:
  assumes "pression_adiabatique (gaz c) (V_min c) (P_A c) (V_max c) = Inr P_B"
    and "temperature (gaz c) P_B (V_min c) = Inr T_B"
    and "pression (gaz c) (V_min c) (T_C c) = Inr P_C"
    and "pression_adiabatique (gaz c) (V_max c) P_C (V_min c) = Inr P_D"
    and "temperature (gaz c) P_D (V_max c) = Inr T_D"
  shows "calculer_points_cycle c =
      Inr (c\<lparr>points := [''A'' \<mapsto> (V_max c, P_A c, T_A c), ''B'' \<mapsto> (V_min c, P_B, T_B),
                         ''C'' \<mapsto> (V_min c, P_C, T_C c), ''D'' \<mapsto> (V_max c, P_D, T_D)]\<rparr>)"
  using assms by (simp add: calculer_points_cycle_def Let_def)

text \<open>
  C3. For every gas model and every valid Otto boundary configuration (a positive
  amount of gas, positive \<open>V_min\<close> and \<open>V_max\<close>, both above the covolume \<open>n b\<close>, which is 0
  for the ideal gas), \<open>calculer_points_cycle\<close> returns and writes the four corners:
  \<open>A = (V_max, P_A, T_A)\<close>; \<open>B = (V_min, P_B, T_B)\<close> with \<open>P_B\<close> the adiabatic pressure at
  \<open>V_min\<close> from \<open>(P_A, V_max)\<close> and \<open>T_B\<close> the temperature at \<open>(P_B, V_min)\<close>;
  \<open>C = (V_min, P_C, T_C)\<close> with the imposed \<open>T_C\<close> and \<open>P_C\<close> the pressure at \<open>(V_min, T_C)\<close>;
  \<open>D = (V_max, P_D, T_D)\<close> with \<open>P_D\<close> the adiabatic pressure at \<open>V_max\<close> from \<open>(P_C, V_min)\<close>
  and \<open>T_D\<close> the temperature at \<open>(P_D, V_max)\<close>.
\<close>

theorem calculer_points_cycle_corners:
  assumes "0 < gaz_n (gaz c)" and "0 < V_min c" and "0 < V_max c"
    and "gaz_n (gaz c) * getattr_b (gaz c) < V_min c"
    and "gaz_n (gaz c) * getattr_b (gaz c) < V_max c"
  shows "\<exists>P_B T_B P_C P_D T_D.
      pression_adiabatique (gaz c) (V_min c) (P_A c) (V_max c) = Inr P_B
    \<and> temperature (gaz c) P_B (V_min c) = Inr T_B
    \<and> pression (gaz c) (V_min c) (T_C c) = Inr P_C
    \<and> pression_adiabatique (gaz c) (V_max c) P_C (V_min c) = Inr P_D
    \<and> temperature (gaz c) P_D (V_max c) = Inr T_D
    \<and> calculer_points_cycle c =
        Inr (c\<lparr>points := [''A'' \<mapsto> (V_max c, P_A c, T_A c), ''B'' \<mapsto> (V_min c, P_B, T_B),
                           ''C'' \<mapsto> (V_min c, P_C, T_C c), ''D'' \<mapsto> (V_max c, P_D, T_D)]\<rparr>)"
proof -
  obtain P_B where 1: "pression_adiabatique (gaz c) (V_min c) (P_A c) (V_max c) = Inr P_B"
    using pression_adiabatique_defined [OF assms(1,2,3,4,5)] by blast
  obtain T_B where 2: "temperature (gaz c) P_B (V_min c) = Inr T_B"
    using temperature_defined [OF assms(1,2)] by blast
  obtain P_C where 3: "pression (gaz c) (V_min c) (T_C c) = Inr P_C"
    using pression_defined [OF assms(2,4)] by blast
  obtain P_D where 4: "pression_adiabatique (gaz c) (V_max c) P_C (V_min c) = Inr P_D"
    using pression_adiabatique_defined [OF assms(1,3,2,5,4)] by blast
  obtain T_D where 5: "temperature (gaz c) P_D (V_max c) = Inr T_D"
    using temperature_defined [OF assms(1,3)] by blast
  show ?thesis
    using 1 2 3 4 5 calculer_points_cycle_value [OF 1 2 3 4 5] by blast
qed

theorem calculer_points_cycle_corners_witness:
  "\<exists>P_B T_B P_C P_D T_D.
      pression_adiabatique (GazVanDerWaals 1 (7 / 5) (14 / 100) (4 / 100000))
        (1 / 8000) 101300 (1 / 1000) = Inr P_B
    \<and> temperature (GazVanDerWaals 1 (7 / 5) (14 / 100) (4 / 100000)) P_B (1 / 8000) = Inr T_B
    \<and> pression (GazVanDerWaals 1 (7 / 5) (14 / 100) (4 / 100000)) (1 / 8000) 2000 = Inr P_C
    \<and> pression_adiabatique (GazVanDerWaals 1 (7 / 5) (14 / 100) (4 / 100000))
        (1 / 1000) P_C (1 / 8000) = Inr P_D
    \<and> temperature (GazVanDerWaals 1 (7 / 5) (14 / 100) (4 / 100000)) P_D (1 / 1000) = Inr T_D
    \<and> calculer_points_cycle
        \<lparr>gaz = GazVanDerWaals 1 (7 / 5) (14 / 100) (4 / 100000), V_min = 1 / 8000,
         V_max = 1 / 1000, V_A = 1 / 1000, T_A = 300, P_A = 101300, T_C = 2000,
         points = Map.empty, tau = 8\<rparr> =
        Inr \<lparr>gaz = GazVanDerWaals 1 (7 / 5) (14 / 100) (4 / 100000), V_min = 1 / 8000,
             V_max = 1 / 1000, V_A = 1 / 1000, T_A = 300, P_A = 101300, T_C = 2000,
             points = [''A'' \<mapsto> (1 / 1000, 101300, 300), ''B'' \<mapsto> (1 / 8000, P_B, T_B),
                       ''C'' \<mapsto> (1 / 8000, P_C, 2000), ''D'' \<mapsto> (1 / 1000, P_D, T_D)],
             tau = 8\<rparr>"
  using calculer_points_cycle_corners
    [of "\<lparr>gaz = GazVanDerWaals 1 (7 / 5) (14 / 100) (4 / 100000), V_min = 1 / 8000,
         V_max = 1 / 1000, V_A = 1 / 1000, T_A = 300, P_A = 101300, T_C = 2000,
         points = Map.empty, tau = 8\<rparr>"]
  by (simp del: pression_adiabatique.simps pression.simps temperature.simps)

section \<open>The compression ratio is not validated\<close>

text \<open>
  With \<open>V_min = V_max = 1\<close> (so \<open>\<tau> = 1\<close>) the constructor returns the engine and
  \<open>calculer_points_cycle\<close> returns the four corners, with B at the state of A and D at
  the state of C.
\<close>

theorem CycleOtto_init_tau_one_counterexample:
  "CycleOtto_init (GazParfait 1 (7 / 5)) 1 1 1000 8314 2000 =
     Inr \<lparr>gaz = GazParfait 1 (7 / 5), V_min = 1, V_max = 1, V_A = 1, T_A = 1000, P_A = 8314,
          T_C = 2000, points = Map.empty, tau = 1\<rparr>
   \<and> calculer_points_cycle
       \<lparr>gaz = GazParfait 1 (7 / 5), V_min = 1, V_max = 1, V_A = 1, T_A = 1000, P_A = 8314,
        T_C = 2000, points = Map.empty, tau = 1\<rparr> =
     Inr \<lparr>gaz = GazParfait 1 (7 / 5), V_min = 1, V_max = 1, V_A = 1, T_A = 1000, P_A = 8314,
          T_C = 2000,
          points = [''A'' \<mapsto> (1, 8314, 1000), ''B'' \<mapsto> (1, 8314, 1000),
                    ''C'' \<mapsto> (1, 16628, 2000), ''D'' \<mapsto> (1, 16628, 2000)],
          tau = 1\<rparr>"
  by (simp add: CycleOtto_init_def calculer_points_cycle_def Let_def adiabatique_def isotherme_def
      CONST_R_def)

text \<open>
  C2, as the code has it. The constructor validates nothing: for every configuration
  with \<open>V_min \<noteq> 0\<close>, whatever the compression ratio, it returns the engine with
  \<open>\<tau> = V_max / V_min\<close>, and it fails only at \<open>V_min = 0\<close>, with the division by zero.
  With \<open>V_min = V_max > 0\<close> and an ideal gas of \<open>n > 0\<close>, \<open>calculer_points_cycle\<close> returns
  the corners of a degenerate cycle: B has the volume and pressure of A, D is C.
\<close>

theorem CycleOtto_init_no_validation:
  "(v_min \<noteq> 0 \<longrightarrow>
      CycleOtto_init g v_min v_max t_A p_A t_C_max =
        Inr \<lparr>gaz = g, V_min = v_min, V_max = v_max, V_A = v_max, T_A = t_A, P_A = p_A,
             T_C = t_C_max, points = Map.empty, tau = v_max / v_min\<rparr>)
   \<and> CycleOtto_init g 0 v_max t_A p_A t_C_max = Inl ZeroDivisionError
   \<and> (0 < n \<and> 0 < v \<longrightarrow>
        calculer_points_cycle
          \<lparr>gaz = GazParfait n gamma, V_min = v, V_max = v, V_A = v, T_A = t_A, P_A = p_A,
           T_C = t_C_max, points = Map.empty, tau = 1\<rparr> =
        Inr \<lparr>gaz = GazParfait n gamma, V_min = v, V_max = v, V_A = v, T_A = t_A, P_A = p_A,
             T_C = t_C_max,
             points = [''A'' \<mapsto> (v, p_A, t_A),
                       ''B'' \<mapsto> (v, p_A, p_A * v / (n * CONST_R)),
                       ''C'' \<mapsto> (v, n * CONST_R * t_C_max / v, t_C_max),
                       ''D'' \<mapsto> (v, n * CONST_R * t_C_max / v, t_C_max)],
             tau = 1\<rparr>)"
  by (simp add: CycleOtto_init_def calculer_points_cycle_def Let_def adiabatique_def isotherme_def)

theorem CycleOtto_init_no_validation_witness:
  "CycleOtto_init (GazParfait 1 (7 / 5)) 2 1 300 101300 2000 =
        Inr \<lparr>gaz = GazParfait 1 (7 / 5), V_min = 2, V_max = 1, V_A = 1, T_A = 300, P_A = 101300,
             T_C = 2000, points = Map.empty, tau = 1 / 2\<rparr>
   \<and> CycleOtto_init (GazParfait 1 (7 / 5)) 0 1 300 101300 2000 = Inl ZeroDivisionError
   \<and> calculer_points_cycle
          \<lparr>gaz = GazParfait 1 (7 / 5), V_min = 2, V_max = 2, V_A = 2, T_A = 300, P_A = 101300,
           T_C = 2000, points = Map.empty, tau = 1\<rparr> =
        Inr \<lparr>gaz = GazParfait 1 (7 / 5), V_min = 2, V_max = 2, V_A = 2, T_A = 300, P_A = 101300,
             T_C = 2000,
             points = [''A'' \<mapsto> (2, 101300, 300),
                       ''B'' \<mapsto> (2, 101300, 101300 * 2 / (1 * CONST_R)),
                       ''C'' \<mapsto> (2, 1 * CONST_R * 2000 / 2, 2000),
                       ''D'' \<mapsto> (2, 1 * CONST_R * 2000 / 2, 2000)],
             tau = 1\<rparr>"
  using CycleOtto_init_no_validation [of 2 "GazParfait 1 (7 / 5)" 1 300 101300 2000 1 2 "7 / 5"]
  by simp

section \<open>The combustion volume of the Diesel cycle\<close>





section \<open>Work, heat and efficiency\<close>

lemma linspace_bounds:
  assumes "x \<in> set (linspace a b k)"
  shows "min a b \<le> x \<and> x \<le> max a b"
proof -
  obtain i where i: "i < k" and x: "x = a + real i * ((b - a) / real (k - 1))"
    using assms by (auto simp: linspace_def)
  define t where "t = real i / real (k - 1)"
  have t0: "0 \<le> t"
    by (simp add: t_def)
  have t1: "t \<le> 1"
  proof (cases "k - 1 = 0")
    case True
    then show ?thesis by (simp add: t_def)
  next
    case False
    moreover have "i \<le> k - 1" using i by simp
    ultimately show ?thesis by (simp add: t_def divide_le_eq_1)
  qed
  have xt: "x = (1 - t) * a + t * b"
    by (simp add: x t_def algebra_simps diff_divide_distrib)
  have "(1 - t) * min a b \<le> (1 - t) * a" "t * min a b \<le> t * b"
    using t0 t1 by (simp_all add: mult_left_mono)
  then have lo: "min a b \<le> x"
    unfolding xt by (simp add: algebra_simps)
  have "(1 - t) * a \<le> (1 - t) * max a b" "t * b \<le> t * max a b"
    using t0 t1 by (simp_all add: mult_left_mono)
  then have hi: "x \<le> max a b"
    unfolding xt by (simp add: algebra_simps)
  from lo hi show ?thesis ..
qed

lemma collect_map_defined:
  "(\<And>x. x \<in> set xs \<Longrightarrow> \<exists>y. f x = Inr y) \<Longrightarrow> \<exists>ys. collect (map f xs) = Inr ys"
proof (induction xs)
  case Nil
  show ?case by simp
next
  case (Cons x xs)
  then obtain y where "f x = Inr y"
    by auto
  moreover obtain ys where "collect (map f xs) = Inr ys"
    using Cons by auto
  ultimately show ?case
    by simp
qed

lemma courbe_defined:
  assumes "0 < gaz_n g" and "0 < V0" and "0 < V1"
    and "gaz_n g * getattr_b g < V0" and "gaz_n g * getattr_b g < V1"
  shows "\<exists>ps. collect (map (\<lambda>V. pression_adiabatique g V P0 V0) (linspace V0 V1 k)) = Inr ps"
proof (rule collect_map_defined)
  fix V assume "V \<in> set (linspace V0 V1 k)"
  then have "min V0 V1 \<le> V"
    using linspace_bounds by blast
  with assms have "0 < V" "gaz_n g * getattr_b g < V"
    by (auto simp: min_def split: if_splits)
  then show "\<exists>y. pression_adiabatique g V P0 V0 = Inr y"
    using assms by (intro pression_adiabatique_defined)
qed


text \<open>
  C4. For every computed Diesel cycle (the four corners are in \<open>points\<close>, with a positive
  amount of gas, \<open>gamma > 1\<close>, corner volumes positive and above the covolume, and
  \<open>T_C \<noteq> T_B\<close>), \<open>calculer_rendement\<close> returns a result in which the total work is the
  sum of the two adiabatic integrals and of the isobaric work \<open>- P_B (V_C - V_B)\<close>, the
  heat input is \<open>n Cp (T_C - T_B)\<close> with \<open>Cp = gamma R / (gamma - 1)\<close>, and the theoretical
  efficiency is NaN.
\<close>

theorem Diesel_calculer_rendement_value:
  assumes "points c ''A'' = Some (VA, PA, TA)" and "points c ''B'' = Some (VB, PB, TB)"
    and "points c ''C'' = Some (VC, PC, TC)" and "points c ''D'' = Some (VD, PD, TD)"
    and "0 < gaz_n (gaz c)" and "1 < gaz_gamma (gaz c)" and "TC \<noteq> TB"
    and "0 < VA" and "0 < VB" and "0 < VC" and "0 < VD"
    and "gaz_n (gaz c) * getattr_b (gaz c) < VA" and "gaz_n (gaz c) * getattr_b (gaz c) < VB"
    and "gaz_n (gaz c) * getattr_b (gaz c) < VC" and "gaz_n (gaz c) * getattr_b (gaz c) < VD"
  shows "\<exists>P_ab P_cd W.
      collect (map (\<lambda>V. pression_adiabatique (gaz c) V PA VA) (linspace VA VB 100)) = Inr P_ab
    \<and> collect (map (\<lambda>V. pression_adiabatique (gaz c) V PC VC) (linspace VC VD 100)) = Inr P_cd
    \<and> W = - simpson P_ab (linspace VA VB 100) + - PB * (VC - VB)
            + - simpson P_cd (linspace VC VD 100)
    \<and> Diesel_calculer_rendement simpson c =
        Inr \<lparr>W_total = W,
             Q_in = gaz_n (gaz c)
                    * (gaz_gamma (gaz c) * gaz_R (gaz c) / (gaz_gamma (gaz c) - 1)) * (TC - TB),
             eta_numerique = \<bar>W\<bar> / (gaz_n (gaz c)
                    * (gaz_gamma (gaz c) * gaz_R (gaz c) / (gaz_gamma (gaz c) - 1)) * (TC - TB)),
             eta_theorique = NaN\<rparr>"
proof -
  obtain P_ab where ab:
    "collect (map (\<lambda>V. pression_adiabatique (gaz c) V PA VA) (linspace VA VB 100)) = Inr P_ab"
    using courbe_defined [OF assms(5,8,9,12,13)] by blast
  obtain P_cd where cd:
    "collect (map (\<lambda>V. pression_adiabatique (gaz c) V PC VC) (linspace VC VD 100)) = Inr P_cd"
    using courbe_defined [OF assms(5,10,11,14,15)] by blast
  have g: "gaz_gamma (gaz c) - 1 \<noteq> 0"
    using assms(6) by simp
  have q: "gaz_n (gaz c) * (gaz_gamma (gaz c) * CONST_R / (gaz_gamma (gaz c) - 1)) * (TC - TB) \<noteq> 0"
    using assms(5,6,7) by simp
  have "Diesel_calculer_rendement simpson c =
        Inr \<lparr>W_total = - simpson P_ab (linspace VA VB 100) + - PB * (VC - VB)
                        + - simpson P_cd (linspace VC VD 100),
             Q_in = gaz_n (gaz c)
                    * (gaz_gamma (gaz c) * gaz_R (gaz c) / (gaz_gamma (gaz c) - 1)) * (TC - TB),
             eta_numerique = \<bar>- simpson P_ab (linspace VA VB 100) + - PB * (VC - VB)
                        + - simpson P_cd (linspace VC VD 100)\<bar> / (gaz_n (gaz c)
                    * (gaz_gamma (gaz c) * gaz_R (gaz c) / (gaz_gamma (gaz c) - 1)) * (TC - TB)),
             eta_theorique = NaN\<rparr>"
    unfolding Diesel_calculer_rendement_def
      obtenir_courbe_adiabatique_value [OF assms(1,2)]
      obtenir_courbe_adiabatique_value [OF assms(3,4)]
    using ab cd g q assms(2,3)
    by (simp add: lookup_def Let_def del: pression_adiabatique.simps)
  with ab cd show ?thesis
    by blast
qed


theorem Diesel_calculer_rendement_value_witness:
  "\<exists>P_ab P_cd W.
      collect (map (\<lambda>V. pression_adiabatique (GazParfait 1 (7 / 5)) V 101300 (1 / 1000))
                 (linspace (1 / 1000) (1 / 8000) 100)) = Inr P_ab
    \<and> collect (map (\<lambda>V. pression_adiabatique (GazParfait 1 (7 / 5)) V 1800000 (1 / 3000))
                 (linspace (1 / 3000) (1 / 1000) 100)) = Inr P_cd
    \<and> W = - sum_list P_ab + - 1800000 * (1 / 3000 - 1 / 8000) + - sum_list P_cd
    \<and> Diesel_calculer_rendement (\<lambda>ys xs. sum_list ys)
        \<lparr>gaz = GazParfait 1 (7 / 5), V_min = 1 / 8000, V_max = 1 / 1000, V_A = 1 / 1000,
         T_A = 300, P_A = 101300, T_C = 2000,
         points = [''A'' \<mapsto> (1 / 1000, 101300, 300), ''B'' \<mapsto> (1 / 8000, 1800000, 680),
                   ''C'' \<mapsto> (1 / 3000, 1800000, 2000), ''D'' \<mapsto> (1 / 1000, 400000, 1100)],
         tau = 8\<rparr> =
        Inr \<lparr>W_total = W,
             Q_in = 1 * (7 / 5 * CONST_R / (7 / 5 - 1)) * (2000 - 680),
             eta_numerique = \<bar>W\<bar> / (1 * (7 / 5 * CONST_R / (7 / 5 - 1)) * (2000 - 680)),
             eta_theorique = NaN\<rparr>"
  using Diesel_calculer_rendement_value
    [of "\<lparr>gaz = GazParfait 1 (7 / 5), V_min = 1 / 8000, V_max = 1 / 1000, V_A = 1 / 1000,
         T_A = 300, P_A = 101300, T_C = 2000,
         points = [''A'' \<mapsto> (1 / 1000, 101300, 300), ''B'' \<mapsto> (1 / 8000, 1800000, 680),
                   ''C'' \<mapsto> (1 / 3000, 1800000, 2000), ''D'' \<mapsto> (1 / 1000, 400000, 1100)],
         tau = 8\<rparr>"
        "1 / 1000" 101300 300 "1 / 8000" 1800000 680 "1 / 3000" 1800000 2000
        "1 / 1000" 400000 1100 "\<lambda>ys xs. sum_list ys"]
  by (simp del: pression_adiabatique.simps)

section \<open>The theoretical efficiency of the Otto cycle\<close>








section \<open>Rounding\<close>

text \<open>
  \<open>fl\<close> at a concrete number: when \<open>2^52 s \<le> |x| < 2^53 s\<close> for the power of two \<open>s\<close>,
  \<open>fl x\<close> is the multiple \<open>m s\<close> nearest to \<open>x\<close>, and the even one of the two nearest
  at a tie.
\<close>

lemma rne_unique:
  assumes "\<bar>x - of_int m\<bar> < 1 / 2"
  shows "rne x = m"
proof -
  have "\<lfloor>x\<rfloor> = m \<or> \<lfloor>x\<rfloor> = m - 1"
    using assms by (auto simp: floor_eq_iff abs_less_iff)
  then show ?thesis
  proof
    assume f: "\<lfloor>x\<rfloor> = m"
    then have "of_int m \<le> x"
      by (simp add: floor_eq_iff)
    with assms have "x - of_int m < 1 / 2"
      by linarith
    with f show ?thesis
      by (simp add: rne_def)
  next
    assume f: "\<lfloor>x\<rfloor> = m - 1"
    then have "x < of_int m"
      by (simp add: floor_eq_iff)
    with assms have "1 / 2 < x - of_int (m - 1)"
      by simp
    with f show ?thesis
      by (simp add: rne_def)
  qed
qed


lemma fl_scaled:
  fixes x s :: real and e :: int
  assumes s: "s = 2 powi e"
    and lo: "2 ^ 52 * s \<le> \<bar>x\<bar>" and hi: "\<bar>x\<bar> < 2 ^ 53 * s"
  shows "fl x = of_int (rne (x / s)) * s"
proof -
  have spos: "0 < s"
    by (simp add: s)
  have x0: "x \<noteq> 0"
    using lo spos by auto
  have pw: "(2::real) powr real_of_int k = 2 powi k" for k
    by (rule powr_real_of_int') simp_all
  have "(2::real) powi (e + 52) = 2 powi e * 2 powi 52"
    by (rule power_int_add) simp
  then have p52: "(2::real) ^ 52 * s = 2 powr real_of_int (e + 52)"
    unfolding pw s by simp
  have "(2::real) powi (e + 53) = 2 powi e * 2 powi 53"
    by (rule power_int_add) simp
  then have p53: "(2::real) ^ 53 * s = 2 powr real_of_int (e + 53)"
    unfolding pw s by simp
  have "real_of_int (e + 52) \<le> log 2 \<bar>x\<bar>"
    using lo x0 by (simp add: le_log_iff p52 [symmetric] del: of_int_add)
  moreover have "log 2 \<bar>x\<bar> < real_of_int (e + 52) + 1"
  proof -
    have "log 2 \<bar>x\<bar> < real_of_int (e + 53)"
      using hi x0 by (simp add: log_less_iff p53 [symmetric] del: of_int_add)
    then show ?thesis by simp
  qed
  ultimately have "\<lfloor>log 2 \<bar>x\<bar>\<rfloor> = e + 52"
    by (rule floor_unique)
  then have "\<lfloor>log 2 \<bar>x\<bar>\<rfloor> - 52 = e"
    by simp
  then show ?thesis
    using x0 by (simp add: fl_def s Let_def)
qed

lemma fl_eqI:
  fixes x s :: real and m e :: int
  assumes s: "s = 2 powi e"
    and lo: "2 ^ 52 * s \<le> \<bar>x\<bar>" and hi: "\<bar>x\<bar> < 2 ^ 53 * s"
    and near: "\<bar>x - of_int m * s\<bar> < s / 2"
  shows "fl x = of_int m * s"
proof -
  have spos: "0 < s"
    by (simp add: s)
  have "\<bar>x / s - of_int m\<bar> = \<bar>x - of_int m * s\<bar> / s"
    using spos by (simp add: field_simps abs_mult abs_divide)
  also have "\<dots> < 1 / 2"
    using near spos by (simp add: field_simps)
  finally have "rne (x / s) = m"
    by (rule rne_unique)
  then show ?thesis
    using fl_scaled [OF s lo hi] by simp
qed


lemma fl_zero [simp]: "fl 0 = 0"
  by (simp add: fl_def)

lemma f64_div_nonzero [simp]: "y \<noteq> 0 \<Longrightarrow> f64_div x y = Inr (fl (x / y))"
  by (simp add: f64_div_def)

lemma f64_pow_pos [simp]: "0 < x \<Longrightarrow> f64_pow x y = Inr (fl (x powr y))"
  by (simp add: f64_pow_def)



lemma fl_one [simp]: "fl 1 = 1"
proof -
  have "fl 1 = of_int 4503599627370496 * (1 / 2 ^ 52)"
    by (rule fl_eqI [where e = "- 52"]) (simp_all add: power_int_minus)
  then show ?thesis by simp
qed

text \<open>
  The ideal-gas anchor needs no rounding: \<open>V0 / V0\<close> is 1, \<open>1 ** gamma\<close> is 1 and
  \<open>P0 * 1\<close> is the double \<open>P0\<close>.
\<close>

lemma adiabatique_f64_anchor:
  assumes "V0 \<noteq> 0" and "fl P0 = P0"
  shows "pression_adiabatique_f64 (GazParfait n gamma) V0 P0 V0 = Inr P0"
  using assms by (simp add: adiabatique_f64_def)

subsection \<open>The roundings of the four evaluations\<close>

































































subsection \<open>What the code returns on doubles\<close>





end
